theory Spec2Isabelle
  imports Complex_Main
begin

section \<open>The view controller of the stock analyser (frontend/js/app.js)\<close>

text \<open>
  The script binds the events of one page to requests against a JSON API and writes the
  answers into the document. It is modelled as functions on an explicit page state:
  the properties of the elements the script reads and writes, its three global
  variables, and logs of what leaves the page (requests, alerts, console lines, chart
  operations).

  Every \<open>async\<close> function is split at its \<open>await\<close>s. The function of the
  source's name is the part a call runs before it returns its promise; it ends by
  putting a task on the list of pending continuations. The \<open>_resume\<close> function is
  the continuation, run when the awaited response arrives. Between two awaits a
  continuation runs without interruption, as the event loop guarantees.

  Conventions:
  \<^item> a JavaScript number is a \<open>real\<close>; the rounding of each arithmetic operation is
    the parameter \<open>fl\<close> (for the browser, rounding to the nearest double);
  \<^item> a string is a HOL string, \<open>trim\<close> and \<open>toLowerCase\<close> act on the ASCII range;
  \<^item> markup assigned to \<open>innerHTML\<close> is kept as its tree of elements, the
    interpolated numbers unformatted (\<open>N\<close>, \<open>Fixed2\<close>, \<open>Locale\<close>);
  \<^item> a response body is a record of the shape the API documents, or absent when
    it does not parse; the decision of an analysis may be missing from a body that
    parses (no string under \<open>decision\<close>), which makes \<open>displayResults\<close> throw;
    the document is assumed to hold every element the script looks up.
\<close>

subsection \<open>Strings\<close>

definition toLowerChar :: "char \<Rightarrow> char" where
  "toLowerChar c =
     (case map_of (zip ''ABCDEFGHIJKLMNOPQRSTUVWXYZ'' ''abcdefghijklmnopqrstuvwxyz'') c of
        Some l \<Rightarrow> l
      | None \<Rightarrow> c)"

definition toLowerCase :: "string \<Rightarrow> string" where
  "toLowerCase s = map toLowerChar s"

definition is_space :: "char \<Rightarrow> bool" where
  "is_space c = (c \<in> set [CHR 0x09, CHR 0x0A, CHR 0x0B, CHR 0x0C, CHR 0x0D, CHR 0x20])"

definition trim :: "string \<Rightarrow> string" where
  "trim s = rev (dropWhile is_space (rev (dropWhile is_space s)))"

definition unreserved :: "char \<Rightarrow> bool" where
  "unreserved c =
     (c \<in> set (''ABCDEFGHIJKLMNOPQRSTUVWXYZabcdefghijklmnopqrstuvwxyz0123456789-_.!~*()''
               @ [CHR 0x27]))"

definition hex_digit :: "nat \<Rightarrow> char" where
  "hex_digit n = ''0123456789ABCDEF'' ! (n mod 16)"

definition encodeURIComponent :: "string \<Rightarrow> string" where
  "encodeURIComponent s =
     concat (map (\<lambda>c. if unreserved c then [c]
                       else [CHR ''%'', hex_digit (of_char c div 16), hex_digit (of_char c)]) s)"

definition API_BASE :: string where
  "API_BASE = ''http://localhost:8000/api''"

text \<open>The literals of the source that lie outside ASCII, byte for byte as the file has them.\<close>

definition icon_up :: string where
  "icon_up = [CHR 0xEF, CHR 0xA3, CHR 0xBF, CHR 0xC3, CHR 0xBC, CHR 0xC3, CHR 0xAC, CHR 0xC3, CHR 0xA0]"

definition icon_down :: string where
  "icon_down = [CHR 0xEF, CHR 0xA3, CHR 0xBF, CHR 0xC3, CHR 0xBC, CHR 0xC3, CHR 0xAC, CHR 0xC3, CHR 0xA2]"

definition icon_pause :: string where
  "icon_pause = [CHR 0xE2, CHR 0x80, CHR 0x9A, CHR 0xC3, CHR 0xA8, CHR 0xE2, CHR 0x88, CHR 0x8F,
                 CHR 0xC3, CHR 0x94, CHR 0xE2, CHR 0x88, CHR 0x8F, CHR 0xC3, CHR 0xA8]"

definition icon_info :: string where
  "icon_info = [CHR 0xE2, CHR 0x80, CHR 0x9A, CHR 0xC3, CHR 0x91, CHR 0xCF, CHR 0x80,
                CHR 0xC3, CHR 0x94, CHR 0xE2, CHR 0x88, CHR 0x8F, CHR 0xC3, CHR 0xA8]"

definition icon_fire :: string where
  "icon_fire = [CHR 0xEF, CHR 0xA3, CHR 0xBF, CHR 0xC3, CHR 0xBC, CHR 0xC3, CHR 0xAE,
                CHR 0xE2, CHR 0x80, CHR 0xA2]"

definition icon_trophy :: string where
  "icon_trophy = [CHR 0xEF, CHR 0xA3, CHR 0xBF, CHR 0xC3, CHR 0xBC, CHR 0xC3, CHR 0xA8, CHR 0xC3, CHR 0x9C]"

definition rupee :: string where
  "rupee = [CHR 0xE2, CHR 0x80, CHR 0x9A, CHR 0xC3, CHR 0x87, CHR 0xCF, CHR 0x80]"

definition quote :: string where
  "quote = [CHR 0x27]"

subsection \<open>Markup\<close>

datatype piece =
    S string
  | N real
  | Fixed2 real
  | Locale real

datatype node =
    Text "piece list"
  | Elem string "(string \<times> piece list) list" "node list"

type_synonym html = "node list"

subsection \<open>Response bodies\<close>

record trending_stock =
  t_symbol :: string
  t_name :: string
  t_change :: real

record trending =
  trending_stocks :: "trending_stock list option"

record analysis_result =
  symbol :: string
  company_name :: string
  exchange :: string
  decision :: "string option"
  explanation :: string
  sentiment_score :: real
  price_change_6m :: real

record metrics_snapshot =
  current_price :: real
  currency :: string
  day_change :: real
  day_change_pct :: real
  high_52w :: "real option"
  low_52w :: "real option"
  market_cap :: "real option"
  volume :: "real option"
  pe_ratio :: "real option"

record point =
  date :: string
  price :: real

record chart_series =
  series_data :: "point list"

record news_item =
  headline :: string
  sentiment :: string

record news_feed =
  news :: "news_item list option"

record comparison_item =
  c_symbol :: string
  c_decision :: string
  c_current_price :: real
  c_currency :: string
  c_price_change_6m :: real
  c_sentiment_score :: real

record best_performer_rec =
  b_symbol :: string
  b_change :: real
  b_decision :: string

record comparison_result =
  comparison :: "comparison_item list"
  best_performer :: best_performer_rec

text \<open>
  What an awaited \<open>fetch\<close> followed by \<open>response.json()\<close> can give: the fetch
  rejects, or there is a response with its \<open>ok\<close> flag whose body parses or not.
\<close>

datatype 'a outcome =
    NetworkError
  | Response bool "'a option"

datatype js_error =
    FetchFailed
  | JsonSyntaxError
  | TypeError
  | Error string

definition json_of :: "'a outcome \<Rightarrow> js_error + 'a" where
  "json_of r =
     (case r of
        NetworkError \<Rightarrow> Inl FetchFailed
      | Response ok None \<Rightarrow> Inl JsonSyntaxError
      | Response ok (Some data) \<Rightarrow> Inr data)"

subsection \<open>The page\<close>

datatype request =
    Get string
  | PostJson string "string list"

record chart =
  labels :: "string list"
  prices :: "real list"

datatype chart_op =
    Construct nat chart
  | Destroy nat

datatype task =
    AwaitTrending
  | AwaitAnalyze string
  | AwaitMetrics string
  | AwaitMetricsAnalysis string metrics_snapshot
  | AwaitChart
  | AwaitNews
  | AwaitCompare

record page =
  stockInput_value :: string
  compareInput1_value :: string
  compareInput2_value :: string
  compareInput3_value :: string
  compareInput4_value :: string
  analyzeBtn_disabled :: bool
  analyzeBtn_text_display :: string
  analyzeBtn_loader_display :: string
  compareBtn_disabled :: bool
  compareBtn_text_display :: string
  compareBtn_loader_display :: string
  periodBtn_active :: "string option list"
  trendingStocks_html :: html
  resultsSection_display :: string
  resultsSection_scrolls :: nat
  decisionBanner_className :: string
  decisionIcon_text :: string
  decisionTitle_text :: string
  decisionSubtitle_text :: string
  explanationContent_text :: string
  metricsContent_html :: html
  newsContent_html :: html
  comparisonResults_display :: string
  comparisonResults_html :: html
  currentChart :: "nat option"
  currentSymbol :: "string option"
  currentCompanyName :: "string option"
  requests :: "request list"
  alerts :: "string list"
  console :: "(string \<times> js_error) list"
  chart_log :: "chart_op list"
  pending :: "task list"

definition fetch :: "request \<Rightarrow> task \<Rightarrow> page \<Rightarrow> page" where
  "fetch req t p = p\<lparr>requests := requests p @ [req], pending := pending p @ [t]\<rparr>"

definition alert :: "string \<Rightarrow> page \<Rightarrow> page" where
  "alert msg p = p\<lparr>alerts := alerts p @ [msg]\<rparr>"

definition console_error :: "string \<Rightarrow> js_error \<Rightarrow> page \<Rightarrow> page" where
  "console_error label e p = p\<lparr>console := console p @ [(label, e)]\<rparr>"

definition attr_class :: "string \<Rightarrow> string \<times> piece list" where
  "attr_class c = (''class'', [S c])"

definition attr_style :: "string \<Rightarrow> string \<times> piece list" where
  "attr_style c = (''style'', [S c])"

subsection \<open>Trending stocks\<close>

definition loadTrendingStocks :: "page \<Rightarrow> page" where
  "loadTrendingStocks p = fetch (Get (API_BASE @ ''/trending'')) AwaitTrending p"

definition trending_card :: "trending_stock \<Rightarrow> node" where
  "trending_card stock =
     Elem ''div''
       [attr_class ''trending-card'',
        (''onclick'', [S ''quickAnalyze('', S quote, S (t_symbol stock), S quote, S '', '',
                       S quote, S (t_name stock), S quote, S '')''])]
       [Elem ''h4'' [] [Text [S (icon_fire @ '' ''), S (t_name stock)]],
        Elem ''div'' [attr_class ''trending-change''] [Text [S ''+'', N (t_change stock), S ''%'']],
        Elem ''p'' [attr_style ''margin-top: 0.5rem; color: #6b7280; font-size: 0.9rem;'']
          [Text [S (t_symbol stock)]]]"

definition trending_none :: html where
  "trending_none =
     [Elem ''p'' [attr_style ''text-align: center; color: #6b7280;'']
        [Text [S ''No trending stocks available'']]]"

definition trending_failed :: html where
  "trending_failed =
     [Elem ''p'' [attr_style ''text-align: center; color: #ef4444;'']
        [Text [S ''Failed to load trending stocks'']]]"

definition loadTrendingStocks_resume :: "trending outcome \<Rightarrow> page \<Rightarrow> page" where
  "loadTrendingStocks_resume r p =
     (case json_of r of
        Inr data \<Rightarrow>
          (case trending_stocks data of
             Some stocks \<Rightarrow>
               if length stocks > 0
               then p\<lparr>trendingStocks_html := map trending_card stocks\<rparr>
               else p\<lparr>trendingStocks_html := trending_none\<rparr>
           | None \<Rightarrow> p\<lparr>trendingStocks_html := trending_none\<rparr>)
      | Inl e \<Rightarrow>
          (console_error ''Error loading trending stocks:'' e p)
            \<lparr>trendingStocks_html := trending_failed\<rparr>)"

subsection \<open>Display of the analysis\<close>

definition decision_icon :: "string \<Rightarrow> string" where
  "decision_icon d =
     (if d = ''BUY'' then icon_up
      else if d = ''SELL'' then icon_down
      else icon_pause)"

text \<open>
  A function that can throw ends normally with the page it leaves, or throws an error
  with the page as it is at that point: what it wrote before stays written.
\<close>

datatype completion =
    Normal page
  | Throws js_error page

definition page_of :: "completion \<Rightarrow> page" where
  "page_of c = (case c of Normal p \<Rightarrow> p | Throws e p \<Rightarrow> p)"

text \<open>
  \<open>data.decision.toLowerCase()\<close> throws a \<open>TypeError\<close> when the body has no decision
  string; the results section has been made visible by then.
\<close>

definition displayResults :: "analysis_result \<Rightarrow> page \<Rightarrow> completion" where
  "displayResults data p =
     (let p1 = p\<lparr>resultsSection_display := ''block''\<rparr>
      in case decision data of
           None \<Rightarrow> Throws TypeError p1
         | Some d \<Rightarrow>
             Normal
               (p1\<lparr>decisionBanner_className := ''decision-banner decision-'' @ toLowerCase d,
                   decisionIcon_text := decision_icon d,
                   decisionTitle_text := d @ '' - '' @ symbol data,
                   decisionSubtitle_text := company_name data @ '' | '' @ exchange data,
                   explanationContent_text := explanation data\<rparr>))"

subsection \<open>Metrics\<close>

definition formatNumber :: "real \<Rightarrow> piece list" where
  "formatNumber num = [Locale num]"

definition formatMarketCap :: "(real \<Rightarrow> real) \<Rightarrow> real \<Rightarrow> piece list" where
  "formatMarketCap fl num =
     (if num \<ge> 1000000000000 then [S rupee, Fixed2 (fl (num / 1000000000000)), S ''T'']
      else if num \<ge> 1000000000 then [S rupee, Fixed2 (fl (num / 1000000000)), S ''B'']
      else if num \<ge> 1000000 then [S rupee, Fixed2 (fl (num / 1000000)), S ''M'']
      else [S rupee, Locale num])"

definition sentimentPercent :: "(real \<Rightarrow> real) \<Rightarrow> real \<Rightarrow> real" where
  "sentimentPercent fl sentimentScore = fl (fl (fl (sentimentScore + 1) / 2) * 100)"

definition metric_item :: "string \<Rightarrow> piece list \<Rightarrow> piece list \<Rightarrow> node" where
  "metric_item label cls val =
     Elem ''div'' [attr_class ''metric-item'']
       [Elem ''span'' [attr_class ''metric-label''] [Text [S label]],
        Elem ''span'' [(''class'', cls)] [Text val]]"

text \<open>\<open>v ? row : ''\<close> on an optional number: absent, \<open>null\<close> and \<open>0\<close> are falsy.\<close>

definition optional_row :: "real option \<Rightarrow> (real \<Rightarrow> node) \<Rightarrow> html" where
  "optional_row v row =
     (case v of
        None \<Rightarrow> []
      | Some x \<Rightarrow> if x \<noteq> 0 then [row x] else [])"

definition sign_class :: "real \<Rightarrow> string" where
  "sign_class x = (if x \<ge> 0 then ''metric-positive'' else ''metric-negative'')"

definition plus_sign :: "real \<Rightarrow> string" where
  "plus_sign x = (if x \<ge> 0 then ''+'' else [])"

definition metrics_block :: "(real \<Rightarrow> real) \<Rightarrow> metrics_snapshot \<Rightarrow> analysis_result \<Rightarrow> html" where
  "metrics_block fl data analysisData =
     (let sentimentScore = sentiment_score analysisData;
          percent = sentimentPercent fl sentimentScore
      in [metric_item ''Current Price'' [S ''metric-value'']
            [N (current_price data), S '' '', S (currency data)],
          metric_item ''Today's Change'' [S ''metric-value '', S (sign_class (day_change data))]
            [S (plus_sign (day_change data)), N (day_change data), S '' ('',
             S (plus_sign (day_change_pct data)), N (day_change_pct data), S ''%)''],
          metric_item ''6-Month Change''
            [S ''metric-value '', S (sign_class (price_change_6m analysisData))]
            [S (plus_sign (price_change_6m analysisData)), N (price_change_6m analysisData), S ''%'']]
         @ optional_row (high_52w data) (\<lambda>v.
             metric_item ''52-Week High'' [S ''metric-value''] [N v, S '' '', S (currency data)])
         @ optional_row (low_52w data) (\<lambda>v.
             metric_item ''52-Week Low'' [S ''metric-value''] [N v, S '' '', S (currency data)])
         @ optional_row (market_cap data) (\<lambda>v.
             metric_item ''Market Cap'' [S ''metric-value''] (formatMarketCap fl v))
         @ optional_row (volume data) (\<lambda>v.
             metric_item ''Volume'' [S ''metric-value''] (formatNumber v))
         @ optional_row (pe_ratio data) (\<lambda>v.
             metric_item ''P/E Ratio'' [S ''metric-value''] [Fixed2 v])
         @ [metric_item ''Sentiment Score'' [S ''metric-value''] [Fixed2 sentimentScore],
            Elem ''div'' [attr_class ''sentiment-bar'']
              [Elem ''div''
                 [attr_class ''sentiment-fill'', (''style'', [S ''width: '', N percent, S ''%''])]
                 []]])"

definition metrics_loader :: html where
  "metrics_loader =
     [Elem ''div'' [attr_class ''metric-loader'']
        [Elem ''span'' [attr_class ''spinner''] [], Text [S '' Loading metrics...'']]]"

definition metrics_failed :: html where
  "metrics_failed = [Elem ''p'' [attr_style ''color: #ef4444;''] [Text [S ''Failed to load metrics'']]]"

definition loadMetrics :: "string \<Rightarrow> page \<Rightarrow> page" where
  "loadMetrics symbol' p =
     fetch (Get (API_BASE @ ''/metrics/'' @ symbol')) (AwaitMetrics symbol')
       (p\<lparr>metricsContent_html := metrics_loader\<rparr>)"

definition loadMetrics_catch :: "js_error \<Rightarrow> page \<Rightarrow> page" where
  "loadMetrics_catch e p =
     (console_error ''Error loading metrics:'' e p)\<lparr>metricsContent_html := metrics_failed\<rparr>"

definition loadMetrics_resume :: "string \<Rightarrow> metrics_snapshot outcome \<Rightarrow> page \<Rightarrow> page" where
  "loadMetrics_resume symbol' r p =
     (case json_of r of
        Inr data \<Rightarrow> fetch (Get (API_BASE @ ''/analyze/'' @ symbol')) (AwaitMetricsAnalysis symbol' data) p
      | Inl e \<Rightarrow> loadMetrics_catch e p)"

definition loadMetrics_resume2 ::
  "(real \<Rightarrow> real) \<Rightarrow> metrics_snapshot \<Rightarrow> analysis_result outcome \<Rightarrow> page \<Rightarrow> page" where
  "loadMetrics_resume2 fl data r p =
     (case json_of r of
        Inr analysisData \<Rightarrow> p\<lparr>metricsContent_html := metrics_block fl data analysisData\<rparr>
      | Inl e \<Rightarrow> loadMetrics_catch e p)"

subsection \<open>Chart\<close>

text \<open>
  The instances of the chart library are known by the log of constructions and calls of
  \<open>destroy\<close>; an instance is live from its construction to its destruction. A new
  instance gets the position of its construction in the log as its handle.
\<close>

definition chart_step :: "chart_op \<Rightarrow> nat set \<Rightarrow> nat set" where
  "chart_step op live = (case op of Construct n c \<Rightarrow> insert n live | Destroy n \<Rightarrow> live - {n})"

definition live_charts :: "chart_op list \<Rightarrow> nat set" where
  "live_charts ops = fold chart_step ops {}"

definition loadChart :: "string \<Rightarrow> string option \<Rightarrow> page \<Rightarrow> page" where
  "loadChart symbol' period_arg p =
     (let period = (case period_arg of None \<Rightarrow> ''6mo'' | Some x \<Rightarrow> x)
      in fetch (Get (API_BASE @ ''/chart/'' @ symbol' @ ''/'' @ period)) AwaitChart p)"

definition new_Chart :: "chart_series \<Rightarrow> page \<Rightarrow> page" where
  "new_Chart data p =
     (let n = length (chart_log p);
          c = \<lparr>labels = map date (series_data data), prices = map price (series_data data)\<rparr>
      in p\<lparr>chart_log := chart_log p @ [Construct n c], currentChart := Some n\<rparr>)"

definition destroy_current :: "page \<Rightarrow> page" where
  "destroy_current p =
     (case currentChart p of
        Some c \<Rightarrow> p\<lparr>chart_log := chart_log p @ [Destroy c]\<rparr>
      | None \<Rightarrow> p)"

definition loadChart_resume :: "chart_series outcome \<Rightarrow> page \<Rightarrow> page" where
  "loadChart_resume r p =
     (case json_of r of
        Inr data \<Rightarrow> new_Chart data (destroy_current p)
      | Inl e \<Rightarrow> console_error ''Error loading chart:'' e p)"

subsection \<open>News\<close>

definition news_loader :: html where
  "news_loader =
     [Elem ''div'' [attr_class ''news-loader'']
        [Elem ''span'' [attr_class ''spinner''] [], Text [S '' Loading news...'']]]"

definition news_icon :: "string \<Rightarrow> string" where
  "news_icon s =
     (if s = ''positive'' then icon_up
      else if s = ''negative'' then icon_down
      else icon_info)"

definition news_entry :: "news_item \<Rightarrow> node" where
  "news_entry article =
     Elem ''div'' [attr_class ''news-item'']
       [Elem ''div'' [attr_class ''news-headline'']
          [Elem ''span'' [attr_class ''news-icon''] [Text [S (news_icon (sentiment article))]],
           Elem ''span'' [] [Text [S (headline article)]]]]"

definition news_none :: html where
  "news_none =
     [Elem ''div'' [attr_style ''text-align: center; padding: 2rem; color: var(--text-muted);'']
        [Text [S ''No recent news available for this stock'']]]"

definition news_failed :: html where
  "news_failed =
     [Elem ''div'' [attr_style ''text-align: center; padding: 2rem; color: var(--danger-text);'']
        [Text [S ''Failed to load news'']]]"

definition loadNews :: "string \<Rightarrow> page \<Rightarrow> page" where
  "loadNews companyName p =
     fetch (Get (API_BASE @ ''/news/'' @ encodeURIComponent companyName)) AwaitNews
       (p\<lparr>newsContent_html := news_loader\<rparr>)"

definition loadNews_resume :: "news_feed outcome \<Rightarrow> page \<Rightarrow> page" where
  "loadNews_resume r p =
     (case json_of r of
        Inr data \<Rightarrow>
          (case news data of
             Some articles \<Rightarrow>
               if length articles > 0
               then p\<lparr>newsContent_html := map news_entry articles\<rparr>
               else p\<lparr>newsContent_html := news_none\<rparr>
           | None \<Rightarrow> p\<lparr>newsContent_html := news_none\<rparr>)
      | Inl e \<Rightarrow>
          (console_error ''Error loading news:'' e p)\<lparr>newsContent_html := news_failed\<rparr>)"

subsection \<open>Analysis of one stock\<close>

definition dquote :: string where
  "dquote = [CHR 0x22]"

definition analyzeStock :: "page \<Rightarrow> page" where
  "analyzeStock p =
     (let stockInput = trim (stockInput_value p)
      in if stockInput = [] then alert ''Please enter a stock name or symbol'' p
         else fetch (Get (API_BASE @ ''/analyze/'' @ encodeURIComponent stockInput))
                (AwaitAnalyze stockInput)
                (p\<lparr>analyzeBtn_disabled := True,
                   analyzeBtn_text_display := ''none'',
                   analyzeBtn_loader_display := ''inline-block''\<rparr>))"

definition analyzeStock_catch :: "string \<Rightarrow> js_error \<Rightarrow> page \<Rightarrow> page" where
  "analyzeStock_catch stockInput e p =
     alert (''Could not find stock '' @ dquote @ stockInput @ dquote
              @ ''. Please check the name and try again.'')
       (console_error ''Error analyzing stock:'' e p)"

definition analyzeStock_finally :: "page \<Rightarrow> page" where
  "analyzeStock_finally p =
     p\<lparr>analyzeBtn_disabled := False,
       analyzeBtn_text_display := ''inline'',
       analyzeBtn_loader_display := ''none''\<rparr>"

definition scrollIntoView :: "page \<Rightarrow> page" where
  "scrollIntoView p = p\<lparr>resultsSection_scrolls := Suc (resultsSection_scrolls p)\<rparr>"

definition analyzeStock_resume :: "string \<Rightarrow> analysis_result outcome \<Rightarrow> page \<Rightarrow> page" where
  "analyzeStock_resume stockInput r p =
     analyzeStock_finally
       (case r of
          NetworkError \<Rightarrow> analyzeStock_catch stockInput FetchFailed p
        | Response ok body \<Rightarrow>
            if \<not> ok then analyzeStock_catch stockInput (Error ''Stock not found'') p
            else (case body of
                    None \<Rightarrow> analyzeStock_catch stockInput JsonSyntaxError p
                  | Some data \<Rightarrow>
                      (case displayResults data
                              (p\<lparr>currentSymbol := Some (symbol data),
                                 currentCompanyName := Some (company_name data)\<rparr>) of
                         Throws e p1 \<Rightarrow> analyzeStock_catch stockInput e p1
                       | Normal p1 \<Rightarrow>
                           scrollIntoView
                             (loadNews (company_name data)
                               (loadChart (symbol data) (Some ''6mo'')
                                 (loadMetrics (symbol data) p1))))))"

definition quickAnalyze :: "string \<Rightarrow> string \<Rightarrow> page \<Rightarrow> page" where
  "quickAnalyze symbol' name p = analyzeStock (p\<lparr>stockInput_value := symbol'\<rparr>)"

subsection \<open>Comparison\<close>

definition compare_inputs :: "page \<Rightarrow> string list" where
  "compare_inputs p =
     filter (\<lambda>s. s \<noteq> [])
       [trim (compareInput1_value p),
        trim (compareInput2_value p),
        trim (compareInput3_value p),
        trim (compareInput4_value p)]"

definition compareStocks :: "page \<Rightarrow> page" where
  "compareStocks p =
     (let stocks = compare_inputs p
      in if length stocks < 2 then alert ''Please enter at least 2 stocks to compare'' p
         else if length stocks > 4 then alert ''Maximum 4 stocks can be compared'' p
         else fetch (PostJson (API_BASE @ ''/compare'') stocks) AwaitCompare
                (p\<lparr>compareBtn_disabled := True,
                   compareBtn_text_display := ''none'',
                   compareBtn_loader_display := ''inline-block''\<rparr>))"

definition decision_colour :: "string \<Rightarrow> string" where
  "decision_colour d =
     (if d = ''BUY'' then ''var(--success-text)''
      else if d = ''SELL'' then ''var(--danger-text)''
      else ''var(--warning-text)'')"

definition comparison_entry :: "comparison_item \<Rightarrow> node" where
  "comparison_entry stock =
     (let decisionEmoji = decision_icon (c_decision stock)
      in Elem ''div'' [attr_class ''comparison-item'']
           [Elem ''h4'' [] [Text [S (c_symbol stock)]],
            Elem ''div''
              [attr_class ''comparison-decision'',
               (''style'', [S ''color: '', S (decision_colour (c_decision stock))])]
              [Text [S decisionEmoji, S '' '', S (c_decision stock)]],
            Elem ''div''
              [attr_style ''margin: 1rem 0; padding: 1rem; background: var(--bg-secondary); border-radius: var(--radius-md);'']
              [Elem ''p'' [attr_style ''margin-bottom: 0.5rem;'']
                 [Elem ''strong'' [] [Text [S ''Price:'']],
                  Text [S '' '', N (c_current_price stock), S '' '', S (c_currency stock)]],
               Elem ''p'' [attr_style ''margin-bottom: 0.5rem;'']
                 [Elem ''strong'' [] [Text [S ''6M Change:'']],
                  Text [S '' ''],
                  Elem ''span''
                    [(''class'', [S (if c_price_change_6m stock \<ge> 0 then ''text-success''
                                     else ''text-danger'')])]
                    [Text [S (plus_sign (c_price_change_6m stock)),
                           N (c_price_change_6m stock), S ''%'']]],
               Elem ''p'' []
                 [Elem ''strong'' [] [Text [S ''Sentiment:'']],
                  Text [S '' '', Fixed2 (c_sentiment_score stock)]]]])"

definition displayComparison :: "comparison_result \<Rightarrow> page \<Rightarrow> page" where
  "displayComparison data p =
     (let best = best_performer data
      in p\<lparr>comparisonResults_display := ''block'',
           comparisonResults_html :=
             [Elem ''div'' [attr_class ''comparison-grid''] (map comparison_entry (comparison data)),
              Elem ''div'' [attr_class ''winner-banner'']
                [Elem ''h4'' [] [Text [S (icon_trophy @ '' Best Performer'')]],
                 Elem ''p'' [attr_style ''font-size: 1.3rem; font-weight: 600; margin-top: 0.5rem;'']
                   [Text [S (b_symbol best), S '' ('', S (plus_sign (b_change best)),
                          N (b_change best), S ''% | '', S (b_decision best), S '')'']]]]\<rparr>)"

definition compareStocks_finally :: "page \<Rightarrow> page" where
  "compareStocks_finally p =
     p\<lparr>compareBtn_disabled := False,
       compareBtn_text_display := ''inline'',
       compareBtn_loader_display := ''none''\<rparr>"

definition compareStocks_resume :: "comparison_result outcome \<Rightarrow> page \<Rightarrow> page" where
  "compareStocks_resume r p =
     compareStocks_finally
       (case json_of r of
          Inr data \<Rightarrow> displayComparison data p
        | Inl e \<Rightarrow>
            alert ''Error comparing stocks. Please try again.''
              (console_error ''Error comparing stocks:'' e p))"

subsection \<open>Events\<close>

text \<open>
  The listeners registered when the document has loaded, and the arrival of a response
  for a pending task. An event that cannot happen in the given state (a click on a
  disabled button, a response for no pending task or of another endpoint's shape) gives
  \<open>None\<close>. A click on a trending card calls \<open>quickAnalyze\<close> with the symbol and
  the name written into the card; typing is the user setting the value of an input.
\<close>

definition DOMContentLoaded :: "page \<Rightarrow> page" where
  "DOMContentLoaded p = loadTrendingStocks p"

definition period_click :: "string option \<Rightarrow> page \<Rightarrow> page" where
  "period_click period p =
     (case currentSymbol p of
        None \<Rightarrow> p
      | Some s \<Rightarrow>
          if s = [] then p
          else loadChart s period (p\<lparr>periodBtn_active := [period]\<rparr>))"

definition keypress :: "string \<Rightarrow> page \<Rightarrow> page" where
  "keypress key p = (if key = ''Enter'' then analyzeStock p else p)"

datatype reply =
    TrendingReply "trending outcome"
  | AnalysisReply "analysis_result outcome"
  | MetricsReply "metrics_snapshot outcome"
  | ChartReply "chart_series outcome"
  | NewsReply "news_feed outcome"
  | CompareReply "comparison_result outcome"

definition resume :: "(real \<Rightarrow> real) \<Rightarrow> task \<Rightarrow> reply \<Rightarrow> page \<Rightarrow> page option" where
  "resume fl t reply p =
     (case t of
        AwaitTrending \<Rightarrow>
          (case reply of TrendingReply r \<Rightarrow> Some (loadTrendingStocks_resume r p) | _ \<Rightarrow> None)
      | AwaitAnalyze stockInput \<Rightarrow>
          (case reply of AnalysisReply r \<Rightarrow> Some (analyzeStock_resume stockInput r p) | _ \<Rightarrow> None)
      | AwaitMetrics s \<Rightarrow>
          (case reply of MetricsReply r \<Rightarrow> Some (loadMetrics_resume s r p) | _ \<Rightarrow> None)
      | AwaitMetricsAnalysis s data \<Rightarrow>
          (case reply of AnalysisReply r \<Rightarrow> Some (loadMetrics_resume2 fl data r p) | _ \<Rightarrow> None)
      | AwaitChart \<Rightarrow>
          (case reply of ChartReply r \<Rightarrow> Some (loadChart_resume r p) | _ \<Rightarrow> None)
      | AwaitNews \<Rightarrow>
          (case reply of NewsReply r \<Rightarrow> Some (loadNews_resume r p) | _ \<Rightarrow> None)
      | AwaitCompare \<Rightarrow>
          (case reply of CompareReply r \<Rightarrow> Some (compareStocks_resume r p) | _ \<Rightarrow> None))"

definition settle :: "(real \<Rightarrow> real) \<Rightarrow> nat \<Rightarrow> reply \<Rightarrow> page \<Rightarrow> page option" where
  "settle fl i r p =
     (if i < length (pending p)
      then resume fl (pending p ! i) r (p\<lparr>pending := take i (pending p) @ drop (Suc i) (pending p)\<rparr>)
      else None)"

datatype event =
    TypeStock string
  | TypeCompare nat string
  | ClickAnalyze
  | Keypress string
  | ClickTrendingCard string string
  | ClickCompare
  | ClickPeriod "string option"
  | Settle nat reply

definition fire :: "(real \<Rightarrow> real) \<Rightarrow> event \<Rightarrow> page \<Rightarrow> page option" where
  "fire fl ev p =
     (case ev of
        TypeStock s \<Rightarrow> Some (p\<lparr>stockInput_value := s\<rparr>)
      | TypeCompare i s \<Rightarrow>
          if i = 1 then Some (p\<lparr>compareInput1_value := s\<rparr>)
          else if i = 2 then Some (p\<lparr>compareInput2_value := s\<rparr>)
          else if i = 3 then Some (p\<lparr>compareInput3_value := s\<rparr>)
          else if i = 4 then Some (p\<lparr>compareInput4_value := s\<rparr>)
          else None
      | ClickAnalyze \<Rightarrow> if analyzeBtn_disabled p then None else Some (analyzeStock p)
      | Keypress key \<Rightarrow> Some (keypress key p)
      | ClickTrendingCard s n \<Rightarrow> Some (quickAnalyze s n p)
      | ClickCompare \<Rightarrow> if compareBtn_disabled p then None else Some (compareStocks p)
      | ClickPeriod period \<Rightarrow> Some (period_click period p)
      | Settle i r \<Rightarrow> settle fl i r p)"

primrec run :: "(real \<Rightarrow> real) \<Rightarrow> event list \<Rightarrow> page \<Rightarrow> page option" where
  "run fl [] p = Some p"
| "run fl (ev # evs) p = (case fire fl ev p of None \<Rightarrow> None | Some p' \<Rightarrow> run fl evs p')"

text \<open>The state of the script when the page has just been loaded: the three globals are \<open>null\<close>.\<close>

definition fresh :: "page \<Rightarrow> bool" where
  "fresh p \<longleftrightarrow>
     currentChart p = None \<and> currentSymbol p = None \<and> currentCompanyName p = None \<and>
     chart_log p = [] \<and> pending p = []"

subsection \<open>Reading rendered markup\<close>

text \<open>
  Observers of what the page shows: the texts inside a fragment, the rows of the metrics
  block (a row is a \<open>metric-item\<close> element, named by its label) and the widths given
  to the sentiment bar.
\<close>

fun node_texts :: "node \<Rightarrow> string list" where
  "node_texts (Text ps) = [s. S s \<leftarrow> ps]"
| "node_texts (Elem tag attrs kids) = concat (map node_texts kids)"

definition failure_shown :: "html \<Rightarrow> bool" where
  "failure_shown h = list_ex (\<lambda>t. take 14 t = ''Failed to load'') (concat (map node_texts h))"

fun metric_row :: "node \<Rightarrow> (string \<times> piece list) option" where
  "metric_row (Elem tag attrs [Elem tag1 attrs1 [Text [S l]], Elem tag2 attrs2 [Text val]]) =
     (if attrs = [attr_class ''metric-item''] \<and> attrs1 = [attr_class ''metric-label'']
      then Some (l, val) else None)"
| "metric_row n = None"

definition metric_rows :: "html \<Rightarrow> (string \<times> piece list) list" where
  "metric_rows h = List.map_filter metric_row h"

fun sentiment_widths :: "node \<Rightarrow> real list" where
  "sentiment_widths (Text ps) = []"
| "sentiment_widths (Elem tag attrs kids) =
     (if attr_class ''sentiment-fill'' \<in> set attrs
      then concat (map (\<lambda>(k, ps). if k = ''style'' then [x. N x \<leftarrow> ps] else []) attrs)
      else [])
     @ concat (map sentiment_widths kids)"

definition is_truthy :: "real option \<Rightarrow> bool" where
  "is_truthy v = (case v of None \<Rightarrow> False | Some x \<Rightarrow> x \<noteq> 0)"

text \<open>
  The arithmetic the claims on numbers are proved for: rounding is monotone and leaves
  every number unchanged that a double holds exactly (an integer below \<open>2^53\<close> in
  magnitude, scaled by a power of two within the exponent range).
\<close>

definition binary64 :: "real \<Rightarrow> bool" where
  "binary64 x = (\<exists>m::int. \<exists>e::int. \<bar>m\<bar> < 2 ^ 53 \<and> - 1074 \<le> e \<and> e \<le> 971 \<and> x = of_int m * 2 powi e)"

definition rounding :: "(real \<Rightarrow> real) \<Rightarrow> bool" where
  "rounding fl = ((\<forall>x y. x \<le> y \<longrightarrow> fl x \<le> fl y) \<and> (\<forall>x. binary64 x \<longrightarrow> fl x = x))"

definition exact :: "real \<Rightarrow> real" where
  "exact x = x"

subsection \<open>A page and responses to run the script on\<close>

definition blank_page :: page where
  "blank_page =
     \<lparr>stockInput_value = [], compareInput1_value = [], compareInput2_value = [],
      compareInput3_value = [], compareInput4_value = [],
      analyzeBtn_disabled = False, analyzeBtn_text_display = ''inline'',
      analyzeBtn_loader_display = ''none'',
      compareBtn_disabled = False, compareBtn_text_display = ''inline'',
      compareBtn_loader_display = ''none'',
      periodBtn_active = [Some ''6mo''],
      trendingStocks_html = [], resultsSection_display = ''none'', resultsSection_scrolls = 0,
      decisionBanner_className = ''decision-banner'', decisionIcon_text = [],
      decisionTitle_text = [], decisionSubtitle_text = [], explanationContent_text = [],
      metricsContent_html = [], newsContent_html = [],
      comparisonResults_display = ''none'', comparisonResults_html = [],
      currentChart = None, currentSymbol = None, currentCompanyName = None,
      requests = [], alerts = [], console = [], chart_log = [], pending = []\<rparr>"

definition sample_analysis :: analysis_result where
  "sample_analysis =
     \<lparr>symbol = ''TCS.NS'', company_name = ''Tata Consultancy Services'', exchange = ''NSE'',
      decision = Some ''SELL'', explanation = ''Weak momentum'', sentiment_score = 0,
      price_change_6m = - 4\<rparr>"

definition sample_metrics :: metrics_snapshot where
  "sample_metrics =
     \<lparr>current_price = 3500, currency = ''INR'', day_change = 12, day_change_pct = 1 / 2,
      high_52w = Some 4200, low_52w = None, market_cap = Some 12000000000000,
      volume = Some 0, pe_ratio = Some 28\<rparr>"

definition sample_series :: chart_series where
  "sample_series = \<lparr>series_data = [\<lparr>date = ''2024-01-01'', price = 3400\<rparr>,
                                   \<lparr>date = ''2024-01-02'', price = 3500\<rparr>]\<rparr>"

subsection \<open>Invariants of the page\<close>

text \<open>
  The chart recorded in \<open>currentChart\<close> is the only one that can be live, and every
  handle in use is older than the log is long, so that a new handle is a new instance.
\<close>

definition handle_of :: "chart_op \<Rightarrow> nat" where
  "handle_of op = (case op of Construct n c \<Rightarrow> n | Destroy n \<Rightarrow> n)"

definition chart_inv :: "page \<Rightarrow> bool" where
  "chart_inv p \<longleftrightarrow>
     live_charts (chart_log p) \<subseteq> set_option (currentChart p) \<and>
     (\<forall>c\<in>set_option (currentChart p). c < length (chart_log p)) \<and>
     list_all (\<lambda>op. handle_of op < length (chart_log p)) (chart_log p)"

text \<open>While the analyze button is disabled, a lookup of \<open>analyzeStock\<close> is in flight.\<close>

definition is_analyze :: "task \<Rightarrow> bool" where
  "is_analyze t = (case t of AwaitAnalyze s \<Rightarrow> True | _ \<Rightarrow> False)"

definition busy_inv :: "page \<Rightarrow> bool" where
  "busy_inv p \<longleftrightarrow> (analyzeBtn_disabled p \<longrightarrow> list_ex is_analyze (pending p))"

text \<open>
  A session: a stock is analysed, its chart arrives, the user picks another period and
  the second chart arrives.
\<close>

definition chart_events :: "event list" where
  "chart_events =
     [TypeStock ''TCS'', ClickAnalyze,
      Settle 1 (AnalysisReply (Response True (Some sample_analysis))),
      Settle 2 (ChartReply (Response True (Some sample_series))),
      ClickPeriod (Some ''1y''),
      Settle 3 (ChartReply (Response True (Some sample_series)))]"

text \<open>
  A session in which the user starts an analysis and, before the answer is there, empties
  the input and presses Enter.
\<close>



definition overlap_events :: "event list" where
  "overlap_events = [TypeStock ''TCS'', ClickAnalyze, TypeStock [], Keypress ''Enter'']"

section \<open>Properties\<close>

lemma blank_page_fields:
  "stockInput_value blank_page = []" "analyzeBtn_disabled blank_page = False"
  "compareBtn_disabled blank_page = False" "currentChart blank_page = None"
  "currentSymbol blank_page = None" "currentCompanyName blank_page = None"
  "requests blank_page = []" "alerts blank_page = []" "console blank_page = []"
  "chart_log blank_page = []" "pending blank_page = []"
  by (simp_all add: blank_page_def)

subsection \<open>The decision banner\<close>

text \<open>
  C2. For an analysis whose decision is BUY, SELL or HOLD, \<open>displayResults\<close> ends
  normally and sets the class of the banner to \<open>decision-banner decision-\<close> followed
  by the decision in lower case, and the icon by a fixed mapping: BUY to the rising
  chart, SELL to the falling chart, HOLD to the pause sign. The three icons differ, so
  the mapping is one to one.
\<close>

theorem displayResults_banner_and_icon:
  assumes "decision data = Some d" and "d \<in> {''BUY'', ''SELL'', ''HOLD''}"
  shows "displayResults data p = Normal (page_of (displayResults data p))
       \<and> decisionBanner_className (page_of (displayResults data p)) =
           ''decision-banner decision-'' @ toLowerCase d
       \<and> (decisionBanner_className (page_of (displayResults data p)),
          decisionIcon_text (page_of (displayResults data p))) =
          (if d = ''BUY'' then (''decision-banner decision-buy'', icon_up)
           else if d = ''SELL'' then (''decision-banner decision-sell'', icon_down)
           else (''decision-banner decision-hold'', icon_pause))
       \<and> distinct [icon_up, icon_down, icon_pause]"
  using assms
  by (auto simp: displayResults_def page_of_def decision_icon_def toLowerCase_def
      toLowerChar_def icon_up_def icon_down_def icon_pause_def)

theorem displayResults_banner_and_icon_witness:
  "decision sample_analysis = Some ''SELL'' \<and> ''SELL'' \<in> {''BUY'', ''SELL'', ''HOLD''} \<and>
   displayResults sample_analysis blank_page =
     Normal (page_of (displayResults sample_analysis blank_page)) \<and>
   decisionBanner_className (page_of (displayResults sample_analysis blank_page)) =
     ''decision-banner decision-sell'' \<and>
   decisionIcon_text (page_of (displayResults sample_analysis blank_page)) = icon_down"
  using displayResults_banner_and_icon [of sample_analysis "''SELL''" blank_page]
  by (simp add: sample_analysis_def toLowerCase_def toLowerChar_def)

subsection \<open>The comparison form\<close>

text \<open>
  C10. \<open>compareStocks\<close> collects its entries from four fixed inputs and drops the empty
  ones, so the list never has more than four elements: the branch that rejects more than
  four stocks is never taken. The function equals the one without that branch, and its
  result is never the page with the alert of that branch.
\<close>

theorem compareStocks_maximum_branch_unreachable:
  "length (compare_inputs p) \<le> 4 \<and>
   compareStocks p =
     (if length (compare_inputs p) < 2
      then alert ''Please enter at least 2 stocks to compare'' p
      else fetch (PostJson (API_BASE @ ''/compare'') (compare_inputs p)) AwaitCompare
             (p\<lparr>compareBtn_disabled := True,
                compareBtn_text_display := ''none'',
                compareBtn_loader_display := ''inline-block''\<rparr>)) \<and>
   compareStocks p \<noteq> alert ''Maximum 4 stocks can be compared'' p"
proof -
  have len: "length (compare_inputs p) \<le> 4"
    unfolding compare_inputs_def
    by (rule order_trans [OF length_filter_le]) simp
  then have eq: "compareStocks p =
     (if length (compare_inputs p) < 2
      then alert ''Please enter at least 2 stocks to compare'' p
      else fetch (PostJson (API_BASE @ ''/compare'') (compare_inputs p)) AwaitCompare
             (p\<lparr>compareBtn_disabled := True,
                compareBtn_text_display := ''none'',
                compareBtn_loader_display := ''inline-block''\<rparr>))"
    by (simp add: compareStocks_def Let_def)
  have "alerts (compareStocks p) \<noteq> alerts (alert ''Maximum 4 stocks can be compared'' p)"
    unfolding eq by (simp add: alert_def fetch_def)
  then have "compareStocks p \<noteq> alert ''Maximum 4 stocks can be compared'' p"
    by metis
  with len eq show ?thesis by blast
qed

subsection \<open>The sentiment bar\<close>

lemma binary64_int: "\<bar>m\<bar> < 2 ^ 53 \<Longrightarrow> binary64 (of_int m)"
  unfolding binary64_def by (rule exI [of _ m], rule exI [of _ 0]) simp

lemma binary64_half: "binary64 (1 / 2)"
  unfolding binary64_def by (rule exI [of _ 1], rule exI [of _ "- 1"]) simp

lemma rounding_fixed:
  assumes "rounding fl"
  shows "fl 0 = 0" "fl 1 = 1" "fl 2 = 2" "fl (1 / 2) = 1 / 2" "fl 50 = 50" "fl 100 = 100"
proof -
  have fx: "binary64 x \<Longrightarrow> fl x = x" for x
    using assms by (simp add: rounding_def)
  show "fl 0 = 0" using fx [OF binary64_int [of 0]] by simp
  show "fl 1 = 1" using fx [OF binary64_int [of 1]] by simp
  show "fl 2 = 2" using fx [OF binary64_int [of 2]] by simp
  show "fl 50 = 50" using fx [OF binary64_int [of 50]] by simp
  show "fl 100 = 100" using fx [OF binary64_int [of 100]] by simp
  show "fl (1 / 2) = 1 / 2" using fx [OF binary64_half] by simp
qed

lemma rounding_mono: "rounding fl \<Longrightarrow> x \<le> y \<Longrightarrow> fl x \<le> fl y"
  by (simp add: rounding_def)

lemma sentimentPercent_bounds:
  assumes r: "rounding fl" and lo: "- 1 \<le> s" and hi: "s \<le> 1"
  shows "0 \<le> sentimentPercent fl s" "sentimentPercent fl s \<le> 100"
proof -
  have a0: "0 \<le> fl (s + 1)"
    using rounding_mono [OF r, of 0 "s + 1"] lo rounding_fixed(1) [OF r] by simp
  have a2: "fl (s + 1) \<le> 2"
    using rounding_mono [OF r, of "s + 1" 2] hi rounding_fixed(3) [OF r] by simp
  have b0: "0 \<le> fl (fl (s + 1) / 2)"
    using rounding_mono [OF r, of 0 "fl (s + 1) / 2"] a0 rounding_fixed(1) [OF r] by simp
  have b1: "fl (fl (s + 1) / 2) \<le> 1"
    using rounding_mono [OF r, of "fl (s + 1) / 2" 1] a2 rounding_fixed(2) [OF r] by simp
  show "0 \<le> sentimentPercent fl s"
    using rounding_mono [OF r, of 0 "fl (fl (s + 1) / 2) * 100"] b0 rounding_fixed(1) [OF r]
    by (simp add: sentimentPercent_def)
  show "sentimentPercent fl s \<le> 100"
    using rounding_mono [OF r, of "fl (fl (s + 1) / 2) * 100" 100] b1 rounding_fixed(6) [OF r]
    by (simp add: sentimentPercent_def)
qed

lemma sentimentPercent_points:
  assumes r: "rounding fl"
  shows "sentimentPercent fl (- 1) = 0" "sentimentPercent fl 0 = 50" "sentimentPercent fl 1 = 100"
  by (simp_all add: sentimentPercent_def rounding_fixed [OF r])

lemma sentiment_widths_metric_item [simp]: "sentiment_widths (metric_item l c v) = []"
  by (simp add: metric_item_def attr_class_def)

lemma sentiment_widths_optional_row [simp]:
  "concat (map sentiment_widths (optional_row v (\<lambda>x. metric_item l c (f x)))) = []"
  by (cases v) (simp_all add: optional_row_def)

lemma sentiment_widths_block:
  "concat (map sentiment_widths (metrics_block fl d a)) = [sentimentPercent fl (sentiment_score a)]"
  by (simp add: metrics_block_def Let_def attr_class_def)

lemma rounding_exact: "rounding exact"
  by (simp add: rounding_def exact_def)

text \<open>
  C3. For a sentiment score \<open>s\<close> between \<open>-1\<close> and \<open>1\<close>, the width that
  \<open>loadMetrics\<close> gives to the sentiment bar is \<open>((s + 1) / 2) * 100\<close> as the
  machine computes it, every operation rounded. It lies between 0 and 100, and is exactly
  0, 50 and 100 at \<open>s = -1\<close>, \<open>0\<close> and \<open>1\<close>. With exact arithmetic it is the
  real number \<open>((s + 1) / 2) * 100\<close>.
\<close>

theorem sentiment_bar_width:
  assumes "rounding fl" and "- 1 \<le> sentiment_score a" and "sentiment_score a \<le> 1"
  shows "concat (map sentiment_widths
                 (metricsContent_html (loadMetrics_resume2 fl d (Response ok (Some a)) p))) =
           [sentimentPercent fl (sentiment_score a)]
       \<and> sentimentPercent fl (sentiment_score a) = fl (fl (fl (sentiment_score a + 1) / 2) * 100)
       \<and> 0 \<le> sentimentPercent fl (sentiment_score a)
       \<and> sentimentPercent fl (sentiment_score a) \<le> 100
       \<and> (sentiment_score a = - 1 \<longrightarrow> sentimentPercent fl (sentiment_score a) = 0)
       \<and> (sentiment_score a = 0 \<longrightarrow> sentimentPercent fl (sentiment_score a) = 50)
       \<and> (sentiment_score a = 1 \<longrightarrow> sentimentPercent fl (sentiment_score a) = 100)
       \<and> ((\<forall>x. fl x = x) \<longrightarrow>
            sentimentPercent fl (sentiment_score a) = ((sentiment_score a + 1) / 2) * 100)"
  using sentimentPercent_bounds [OF assms] sentimentPercent_points [OF assms(1)]
  by (simp add: loadMetrics_resume2_def json_of_def sentiment_widths_block)
     (simp add: sentimentPercent_def)

theorem sentiment_bar_width_witness:
  "rounding exact \<and> - 1 \<le> sentiment_score sample_analysis \<and> sentiment_score sample_analysis \<le> 1 \<and>
   concat (map sentiment_widths
     (metricsContent_html
        (loadMetrics_resume2 exact sample_metrics (Response True (Some sample_analysis)) blank_page))) = [50]"
  using sentiment_bar_width [of exact sample_analysis sample_metrics True blank_page] rounding_exact
  by (simp add: sample_analysis_def)

subsection \<open>Validation of the comparison form\<close>

text \<open>
  C4. Let the entries be the trimmed values of the four comparison inputs that are not
  empty. With fewer than two or more than four entries, \<open>compareStocks\<close> raises an
  alert and returns: no request is issued and nothing is left pending. Otherwise it
  issues one request, a POST to \<open>/compare\<close> carrying exactly the entries, and raises
  no alert.
\<close>

theorem compareStocks_validates_count:
  "let entries = filter (\<lambda>s. s \<noteq> [])
         (map trim [compareInput1_value p, compareInput2_value p,
                    compareInput3_value p, compareInput4_value p])
   in if length entries < 2 \<or> length entries > 4
      then compareStocks p =
             alert (if length entries < 2 then ''Please enter at least 2 stocks to compare''
                    else ''Maximum 4 stocks can be compared'') p
           \<and> requests (compareStocks p) = requests p
           \<and> pending (compareStocks p) = pending p
      else requests (compareStocks p) = requests p @ [PostJson (API_BASE @ ''/compare'') entries]
           \<and> pending (compareStocks p) = pending p @ [AwaitCompare]
           \<and> alerts (compareStocks p) = alerts p"
  by (simp add: compareStocks_def compare_inputs_def Let_def alert_def fetch_def)

theorem compareStocks_validates_count_witness:
  "requests (compareStocks (blank_page\<lparr>compareInput1_value := '' TCS.NS '', compareInput3_value := ''INFY.NS''\<rparr>))
     = [PostJson ''http://localhost:8000/api/compare'' [''TCS.NS'', ''INFY.NS'']]
   \<and> requests (compareStocks (blank_page\<lparr>compareInput2_value := ''TCS.NS'', compareInput4_value := ''   ''\<rparr>)) = []
   \<and> alerts (compareStocks (blank_page\<lparr>compareInput2_value := ''TCS.NS'', compareInput4_value := ''   ''\<rparr>)) 
       = [''Please enter at least 2 stocks to compare'']"
  using compareStocks_validates_count [of "blank_page\<lparr>compareInput1_value := '' TCS.NS '', compareInput3_value := ''INFY.NS''\<rparr>"]
        compareStocks_validates_count [of "blank_page\<lparr>compareInput2_value := ''TCS.NS'', compareInput4_value := ''   ''\<rparr>"]
  by (simp add: blank_page_def trim_def is_space_def API_BASE_def alert_def Let_def)

subsection \<open>The rows of the metrics block\<close>

lemma metric_row_item [simp]: "metric_row (metric_item l c v) = Some (l, v)"
  by (simp add: metric_item_def)

lemma metric_rows_append [simp]: "metric_rows (xs @ ys) = metric_rows xs @ metric_rows ys"
  by (simp add: metric_rows_def List.map_filter_def)

lemma metric_rows_Cons_item [simp]:
  "metric_rows (metric_item l c v # xs) = (l, v) # metric_rows xs"
  by (simp add: metric_rows_def)

lemma metric_rows_Nil [simp]: "metric_rows [] = []"
  by (simp add: metric_rows_def)

lemma metric_rows_optional_row [simp]:
  "metric_rows (optional_row v (\<lambda>x. metric_item l c (f x))) =
     (if is_truthy v then [(l, f (the v))] else [])"
  by (cases v) (simp_all add: optional_row_def is_truthy_def)

lemma length_optional_row [simp]:
  "length (optional_row v row) = (if is_truthy v then 1 else 0)"
  by (cases v) (simp_all add: optional_row_def is_truthy_def)

lemma metric_rows_bar [simp]:
  "metric_rows [Elem ''div'' [attr_class ''sentiment-bar''] [k]] = []"
  by (simp add: metric_rows_def)

lemma metric_rows_block:
  "metric_rows (metrics_block fl d a) =
     [(''Current Price'', [N (current_price d), S '' '', S (currency d)]),
      (''Today's Change'', [S (plus_sign (day_change d)), N (day_change d), S '' ('',
             S (plus_sign (day_change_pct d)), N (day_change_pct d), S ''%)'']),
      (''6-Month Change'', [S (plus_sign (price_change_6m a)), N (price_change_6m a), S ''%''])]
     @ (if is_truthy (high_52w d) then [(''52-Week High'', [N (the (high_52w d)), S '' '', S (currency d)])] else [])
     @ (if is_truthy (low_52w d) then [(''52-Week Low'', [N (the (low_52w d)), S '' '', S (currency d)])] else [])
     @ (if is_truthy (market_cap d) then [(''Market Cap'', formatMarketCap fl (the (market_cap d)))] else [])
     @ (if is_truthy (volume d) then [(''Volume'', formatNumber (the (volume d)))] else [])
     @ (if is_truthy (pe_ratio d) then [(''P/E Ratio'', [Fixed2 (the (pe_ratio d))])] else [])
     @ [(''Sentiment Score'', [Fixed2 (sentiment_score a)])]"
  unfolding metrics_block_def Let_def by simp

text \<open>
  C8, as amended. The metrics block has the rows Current Price, Today's Change and
  6-Month Change, then one row for each of \<open>high_52w\<close>, \<open>low_52w\<close>,
  \<open>market_cap\<close>, \<open>volume\<close>, \<open>pe_ratio\<close> that is present and not zero, then
  Sentiment Score. A field that is absent or zero gives no row and no empty placeholder:
  the block has five nodes plus one for each field that is present and not zero.
\<close>

theorem metrics_block_optional_rows:
  "map fst (metric_rows (metrics_block fl d a)) =
     [''Current Price'', ''Today's Change'', ''6-Month Change'']
     @ (if is_truthy (high_52w d) then [''52-Week High''] else [])
     @ (if is_truthy (low_52w d) then [''52-Week Low''] else [])
     @ (if is_truthy (market_cap d) then [''Market Cap''] else [])
     @ (if is_truthy (volume d) then [''Volume''] else [])
     @ (if is_truthy (pe_ratio d) then [''P/E Ratio''] else [])
     @ [''Sentiment Score'']
   \<and> length (metrics_block fl d a) =
       5 + length (filter is_truthy [high_52w d, low_52w d, market_cap d, volume d, pe_ratio d])"
  by (simp add: metric_rows_block) (simp add: metrics_block_def Let_def)

text \<open>
  C8 as stated fails for a field that is present with the value zero: a metrics response
  with \<open>volume = 0\<close> has the field, and the block has no Volume row.
\<close>

theorem metrics_block_zero_volume_no_row:
  "volume sample_metrics = Some 0 \<and>
   ''Volume'' \<notin> set (map fst (metric_rows (metrics_block exact sample_metrics sample_analysis)))"
  by (simp add: metric_rows_block is_truthy_def sample_metrics_def)

theorem metrics_block_optional_rows_witness:
   "map fst (metric_rows (metrics_block exact sample_metrics sample_analysis)) =
     [''Current Price'', ''Today's Change'', ''6-Month Change'', ''52-Week High'', ''Market Cap'', ''P/E Ratio'', ''Sentiment Score'']
    \<and> length (metrics_block exact sample_metrics sample_analysis) = 8"
  using metrics_block_optional_rows [of exact sample_metrics sample_analysis]
  by (simp add: is_truthy_def sample_metrics_def)

subsection \<open>The two requests of loadMetrics\<close>

text \<open>
  C7. A call of \<open>loadMetrics\<close> for a symbol whose two responses parse issues exactly
  two requests, first GET \<open>/metrics/{symbol}\<close>, then GET \<open>/analyze/{symbol}\<close>, and
  ends with one block in the metrics container that is built from both bodies: the price
  row from the first, the sentiment score from the second. Nothing else on the page
  changes and nothing is left pending.
\<close>

theorem loadMetrics_two_requests_one_block:
  "run fl [Settle (length (pending p)) (MetricsReply (Response ok1 (Some d))),
           Settle (length (pending p)) (AnalysisReply (Response ok2 (Some a)))]
       (loadMetrics s p) =
     Some (p\<lparr>metricsContent_html := metrics_block fl d a,
             requests := requests p @ [Get (API_BASE @ ''/metrics/'' @ s),
                                       Get (API_BASE @ ''/analyze/'' @ s)]\<rparr>)
   \<and> map_of (metric_rows (metrics_block fl d a)) ''Current Price'' =
       Some [N (current_price d), S '' '', S (currency d)]
   \<and> map_of (metric_rows (metrics_block fl d a)) ''Sentiment Score'' =
       Some [Fixed2 (sentiment_score a)]"
  by (simp add: metric_rows_block)
     (simp add: fire_def settle_def resume_def loadMetrics_def loadMetrics_resume_def
        loadMetrics_resume2_def json_of_def fetch_def)

subsection \<open>Failing fetches\<close>

text \<open>
  C1, as amended. A failing fetch of \<open>loadTrendingStocks\<close>, \<open>loadMetrics\<close> (either
  of its two fetches) or \<open>loadNews\<close> is caught where it happens: the container of the
  operation gets its failure message (Failed to load trending stocks, Failed to load
  metrics, Failed to load news), the console gets a line, and nothing else on the page
  changes. A failing fetch of \<open>loadChart\<close> is caught as well, but no message is shown:
  only the console line is written and no container changes.
\<close>

theorem failing_fetch_stays_local:
  assumes "json_of rt = Inl et" and "json_of rm = Inl em" and "json_of ra = Inl ea"
    and "json_of rn = Inl en" and "json_of rc = Inl ec"
  shows "loadTrendingStocks_resume rt p =
           p\<lparr>trendingStocks_html := trending_failed,
             console := console p @ [(''Error loading trending stocks:'', et)]\<rparr>
       \<and> loadMetrics_resume s rm p =
           p\<lparr>metricsContent_html := metrics_failed,
             console := console p @ [(''Error loading metrics:'', em)]\<rparr>
       \<and> loadMetrics_resume2 fl d ra p =
           p\<lparr>metricsContent_html := metrics_failed,
             console := console p @ [(''Error loading metrics:'', ea)]\<rparr>
       \<and> loadNews_resume rn p =
           p\<lparr>newsContent_html := news_failed,
             console := console p @ [(''Error loading news:'', en)]\<rparr>
       \<and> loadChart_resume rc p = p\<lparr>console := console p @ [(''Error loading chart:'', ec)]\<rparr>
       \<and> concat (map node_texts trending_failed) = [''Failed to load trending stocks'']
       \<and> concat (map node_texts metrics_failed) = [''Failed to load metrics'']
       \<and> concat (map node_texts news_failed) = [''Failed to load news'']"
  using assms
  by (simp add: loadTrendingStocks_resume_def loadMetrics_resume_def loadMetrics_resume2_def
      loadMetrics_catch_def loadNews_resume_def loadChart_resume_def console_error_def
      trending_failed_def metrics_failed_def news_failed_def)

theorem failing_fetch_stays_local_witness:
  "json_of (NetworkError :: trending outcome) = Inl FetchFailed
   \<and> json_of (Response True None :: metrics_snapshot outcome) = Inl JsonSyntaxError
   \<and> json_of (NetworkError :: analysis_result outcome) = Inl FetchFailed
   \<and> json_of (NetworkError :: news_feed outcome) = Inl FetchFailed
   \<and> json_of (NetworkError :: chart_series outcome) = Inl FetchFailed
   \<and> trendingStocks_html (loadTrendingStocks_resume NetworkError blank_page) = trending_failed
   \<and> metricsContent_html (loadMetrics_resume ''TCS.NS'' (Response True None) blank_page) = metrics_failed
   \<and> metricsContent_html (loadMetrics_resume2 exact sample_metrics NetworkError blank_page) = metrics_failed
   \<and> newsContent_html (loadNews_resume NetworkError blank_page) = news_failed
   \<and> newsContent_html (loadMetrics_resume ''TCS.NS'' (Response True None) blank_page) = []
   \<and> console (loadChart_resume NetworkError blank_page) = [(''Error loading chart:'', FetchFailed)]"
proof -
  have h: "json_of (NetworkError :: trending outcome) = Inl FetchFailed"
    "json_of (Response True None :: metrics_snapshot outcome) = Inl JsonSyntaxError"
    "json_of (NetworkError :: analysis_result outcome) = Inl FetchFailed"
    "json_of (NetworkError :: news_feed outcome) = Inl FetchFailed"
    "json_of (NetworkError :: chart_series outcome) = Inl FetchFailed"
    by (simp_all add: json_of_def)
  show ?thesis
    using failing_fetch_stays_local [OF h, of blank_page "''TCS.NS''" exact sample_metrics] h
    by (simp add: blank_page_def)
qed

text \<open>
  C1 as stated fails for \<open>loadChart\<close>: after a failed fetch of the chart no container
  of the page shows a failure message, and no alert is raised.
\<close>

theorem loadChart_failure_shows_no_message:
  "json_of (NetworkError :: chart_series outcome) = Inl FetchFailed
   \<and> \<not> failure_shown (trendingStocks_html (loadChart_resume NetworkError blank_page))
   \<and> \<not> failure_shown (metricsContent_html (loadChart_resume NetworkError blank_page))
   \<and> \<not> failure_shown (newsContent_html (loadChart_resume NetworkError blank_page))
   \<and> \<not> failure_shown (comparisonResults_html (loadChart_resume NetworkError blank_page))
   \<and> alerts (loadChart_resume NetworkError blank_page) = []"
  by (simp add: json_of_def loadChart_resume_def console_error_def blank_page_def failure_shown_def)

subsection \<open>At most one live chart\<close>

lemmas handler_defs =
  fetch_def alert_def console_error_def loadTrendingStocks_def loadTrendingStocks_resume_def
  displayResults_def loadMetrics_def loadMetrics_catch_def loadMetrics_resume_def
  loadMetrics_resume2_def loadChart_def loadNews_def loadNews_resume_def
  analyzeStock_def analyzeStock_catch_def analyzeStock_finally_def scrollIntoView_def
  analyzeStock_resume_def quickAnalyze_def compareStocks_def displayComparison_def
  compareStocks_finally_def compareStocks_resume_def period_click_def keypress_def

lemma run_invariant:
  assumes "run fl evs p = Some p'" and "P p"
    and step: "\<And>ev q q'. P q \<Longrightarrow> fire fl ev q = Some q' \<Longrightarrow> P q'"
  shows "P p'"
  using assms(1,2)
proof (induction evs arbitrary: p)
  case Nil
  then show ?case by simp
next
  case (Cons ev evs)
  then show ?case
    by (auto split: option.splits dest: step)
qed

lemma live_charts_snoc: "live_charts (ops @ xs) = fold chart_step xs (live_charts ops)"
  by (simp add: live_charts_def)

lemma chart_inv_loadChart_resume:
  assumes "chart_inv p"
  shows "chart_inv (loadChart_resume r p)"
proof (cases "json_of r")
  case (Inl e)
  then show ?thesis
    using assms by (simp add: loadChart_resume_def console_error_def chart_inv_def)
next
  case (Inr data)
  show ?thesis
  proof (cases "currentChart p")
    case None
    with Inr assms show ?thesis
      by (auto simp: loadChart_resume_def destroy_current_def new_Chart_def Let_def chart_inv_def
          live_charts_snoc chart_step_def handle_of_def list_all_iff)
  next
    case (Some c)
    with Inr assms show ?thesis
      by (auto simp: loadChart_resume_def destroy_current_def new_Chart_def Let_def chart_inv_def
          live_charts_snoc chart_step_def handle_of_def list_all_iff)
  qed
qed

lemma chart_fields_resume:
  assumes "resume fl t reply p = Some q" and "t \<noteq> AwaitChart"
  shows "chart_log q = chart_log p \<and> currentChart q = currentChart p"
  using assms
  by (auto simp: resume_def handler_defs Let_def
      split: task.splits reply.splits sum.splits option.splits if_splits outcome.splits
        completion.splits)

lemma chart_inv_resume:
  assumes "chart_inv p" and "resume fl t reply p = Some q"
  shows "chart_inv q"
proof (cases "t = AwaitChart")
  case True
  with assms show ?thesis
    by (auto simp: resume_def chart_inv_loadChart_resume split: reply.splits)
next
  case False
  from chart_fields_resume [OF assms(2) False] assms(1) show ?thesis
    by (simp add: chart_inv_def)
qed

lemma chart_inv_fire:
  assumes "chart_inv p" and "fire fl ev p = Some q"
  shows "chart_inv q"
proof (cases ev)
  case (Settle i reply)
  with assms(2) have r: "resume fl (pending p ! i) reply
      (p\<lparr>pending := take i (pending p) @ drop (Suc i) (pending p)\<rparr>) = Some q"
    by (simp add: fire_def settle_def split: if_splits)
  have "chart_inv (p\<lparr>pending := take i (pending p) @ drop (Suc i) (pending p)\<rparr>)"
    using assms(1) by (simp add: chart_inv_def)
  from chart_inv_resume [OF this r] show ?thesis .
qed (use assms in \<open>auto simp: fire_def handler_defs Let_def chart_inv_def
      split: if_splits option.splits\<close>)

lemma chart_inv_fresh: "fresh p \<Longrightarrow> chart_inv (DOMContentLoaded p)"
  by (simp add: fresh_def chart_inv_def DOMContentLoaded_def loadTrendingStocks_def fetch_def
      live_charts_def)

lemma chart_inv_run:
  assumes "fresh p0" and "run fl evs (DOMContentLoaded p0) = Some p"
  shows "chart_inv p"
  using run_invariant [OF assms(2), of chart_inv] chart_inv_fresh [OF assms(1)] chart_inv_fire
  by blast

text \<open>
  C6. In every state the page reaches from its load, by any sequence of user events and
  responses, at most one chart instance is live, and it is the one recorded in
  \<open>currentChart\<close>. When a chart response arrives, \<open>loadChart\<close> first destroys the
  recorded instance, if there is one, and then constructs the new one and records it:
  the new instance is one never used before, and it is then the only live one.
\<close>

theorem loadChart_single_live_chart:
  assumes "fresh p0" and "run fl evs (DOMContentLoaded p0) = Some p"
  shows "card (live_charts (chart_log p)) \<le> 1
       \<and> live_charts (chart_log p) \<subseteq> set_option (currentChart p)
       \<and> chart_log (loadChart_resume (Response ok (Some data)) p) =
           chart_log p
           @ (case currentChart p of None \<Rightarrow> [] | Some c \<Rightarrow> [Destroy c])
           @ [Construct (length (chart_log p) + (case currentChart p of None \<Rightarrow> 0 | Some c \<Rightarrow> 1))
                \<lparr>labels = map date (series_data data), prices = map price (series_data data)\<rparr>]
       \<and> currentChart (loadChart_resume (Response ok (Some data)) p) =
           Some (length (chart_log p) + (case currentChart p of None \<Rightarrow> 0 | Some c \<Rightarrow> 1))
       \<and> live_charts (chart_log (loadChart_resume (Response ok (Some data)) p)) =
           {length (chart_log p) + (case currentChart p of None \<Rightarrow> 0 | Some c \<Rightarrow> 1)}
       \<and> length (chart_log p) + (case currentChart p of None \<Rightarrow> 0 | Some c \<Rightarrow> 1)
           \<notin> handle_of ` set (chart_log p)"
proof -
  let ?q = "loadChart_resume (Response ok (Some data)) p"
  let ?n = "length (chart_log p) + (case currentChart p of None \<Rightarrow> 0 | Some c \<Rightarrow> 1)"
  have inv: "chart_inv p"
    using chart_inv_run [OF assms] .
  then have sub: "live_charts (chart_log p) \<subseteq> set_option (currentChart p)"
    by (simp add: chart_inv_def)
  have "card (live_charts (chart_log p)) \<le> card (set_option (currentChart p))"
    by (rule card_mono) (use sub in simp_all)
  also have "\<dots> \<le> 1"
    by (cases "currentChart p") simp_all
  finally have one: "card (live_charts (chart_log p)) \<le> 1" .
  have log: "chart_log ?q = chart_log p
           @ (case currentChart p of None \<Rightarrow> [] | Some c \<Rightarrow> [Destroy c])
           @ [Construct ?n \<lparr>labels = map date (series_data data), prices = map price (series_data data)\<rparr>]"
    and cur: "currentChart ?q = Some ?n"
    by (cases "currentChart p";
        simp add: loadChart_resume_def json_of_def destroy_current_def new_Chart_def Let_def)+
  have "chart_inv ?q"
    using inv by (rule chart_inv_loadChart_resume)
  then have "live_charts (chart_log ?q) \<subseteq> {?n}"
    by (simp add: chart_inv_def cur)
  moreover have "?n \<in> live_charts (chart_log ?q)"
    unfolding log by (simp add: live_charts_def chart_step_def)
  ultimately have live: "live_charts (chart_log ?q) = {?n}"
    by blast
  have new: "?n \<notin> handle_of ` set (chart_log p)"
    using inv by (auto simp: chart_inv_def list_all_iff)
  from one sub log cur live new show ?thesis
    by blast
qed

theorem loadChart_single_live_chart_witness:
  "fresh blank_page \<and>
   (\<exists>p. run exact chart_events (DOMContentLoaded blank_page) = Some p
      \<and> map handle_of (chart_log p) = [0, 0, 2]
      \<and> currentChart p = Some 2
      \<and> card (live_charts (chart_log p)) \<le> 1)"
proof -
  have f: "fresh blank_page"
    by (simp add: fresh_def blank_page_fields)
  have "\<exists>p. run exact chart_events (DOMContentLoaded blank_page) = Some p
      \<and> map handle_of (chart_log p) = [0, 0, 2] \<and> currentChart p = Some 2"
    by (simp add: chart_events_def DOMContentLoaded_def blank_page_fields fire_def settle_def
        resume_def handler_defs loadChart_resume_def destroy_current_def new_Chart_def
        json_of_def Let_def trim_def is_space_def handle_of_def sample_analysis_def)
  then obtain p where r: "run exact chart_events (DOMContentLoaded blank_page) = Some p"
    and l: "map handle_of (chart_log p) = [0, 0, 2]" and c: "currentChart p = Some 2"
    by (elim exE conjE)
  have k: "card (live_charts (chart_log p)) \<le> 1"
    using loadChart_single_live_chart [OF f r, THEN conjunct1] .
  show ?thesis
    by (intro conjI exI [of _ p]) (fact f r l c k)+
qed

subsection \<open>The analyze button\<close>

lemma list_ex_remove_nth:
  assumes "i < length xs" and "\<not> P (xs ! i)"
  shows "list_ex P (take i xs @ drop (Suc i) xs) = list_ex P xs"
proof -
  have "list_ex P xs = list_ex P (take i xs @ xs ! i # drop (Suc i) xs)"
    using id_take_nth_drop [OF assms(1)] by simp
  with assms(2) show ?thesis by simp
qed

lemma busy_resume_other:
  assumes "resume fl t reply p = Some q" and "\<not> is_analyze t"
  shows "analyzeBtn_disabled q = analyzeBtn_disabled p
       \<and> (list_ex is_analyze (pending p) \<longrightarrow> list_ex is_analyze (pending q))"
  using assms
  by (auto simp: resume_def handler_defs loadChart_resume_def destroy_current_def new_Chart_def
      Let_def is_analyze_def
      split: task.splits reply.splits sum.splits option.splits if_splits completion.splits)

lemma busy_resume_analyze:
  assumes "resume fl t reply p = Some q" and "is_analyze t"
  shows "\<not> analyzeBtn_disabled q"
  using assms
  by (auto simp: resume_def analyzeStock_resume_def analyzeStock_finally_def is_analyze_def
      split: task.splits reply.splits)

lemma busy_inv_fire:
  assumes "busy_inv p" and "fire fl ev p = Some q"
  shows "busy_inv q"
proof (cases ev)
  case (Settle i reply)
  with assms(2) have i: "i < length (pending p)"
    and r: "resume fl (pending p ! i) reply
      (p\<lparr>pending := take i (pending p) @ drop (Suc i) (pending p)\<rparr>) = Some q"
    by (simp_all add: fire_def settle_def split: if_splits)
  show ?thesis
  proof (cases "is_analyze (pending p ! i)")
    case True
    from busy_resume_analyze [OF r True] show ?thesis
      by (simp add: busy_inv_def)
  next
    case False
    from busy_resume_other [OF r False] list_ex_remove_nth [of i "pending p" is_analyze, OF i False] assms(1)
    show ?thesis
      by (auto simp: busy_inv_def)
  qed
qed (use assms in \<open>auto simp: fire_def handler_defs Let_def busy_inv_def is_analyze_def
      split: if_splits option.splits\<close>)

text \<open>
  C9, as amended. When a run of \<open>analyzeStock\<close> that issued its lookup ends, with
  success or with failure, the analyze button is enabled, its text shown and its loader
  hidden. A call with a non-empty input puts the button into the loading state and leaves
  the lookup pending. A call that returns early on empty input raises its alert and
  leaves the button as it found it. On a page whose button starts enabled the button is
  disabled only while a lookup of \<open>analyzeStock\<close> is in flight.
\<close>

theorem analyzeStock_button_restored:
  "analyzeBtn_disabled (analyzeStock_resume s r p) = False
   \<and> analyzeBtn_text_display (analyzeStock_resume s r p) = ''inline''
   \<and> analyzeBtn_loader_display (analyzeStock_resume s r p) = ''none''
   \<and> (trim (stockInput_value p) \<noteq> [] \<longrightarrow>
        analyzeBtn_disabled (analyzeStock p)
        \<and> analyzeBtn_text_display (analyzeStock p) = ''none''
        \<and> analyzeBtn_loader_display (analyzeStock p) = ''inline-block''
        \<and> pending (analyzeStock p) = pending p @ [AwaitAnalyze (trim (stockInput_value p))])
   \<and> (trim (stockInput_value p) = [] \<longrightarrow>
        analyzeStock p = alert ''Please enter a stock name or symbol'' p)
   \<and> (\<not> analyzeBtn_disabled p0 \<and> run fl evs p0 = Some q \<and> analyzeBtn_disabled q \<longrightarrow>
        list_ex is_analyze (pending q))"
proof -
  have fin: "analyzeBtn_disabled (analyzeStock_resume s r p) = False
     \<and> analyzeBtn_text_display (analyzeStock_resume s r p) = ''inline''
     \<and> analyzeBtn_loader_display (analyzeStock_resume s r p) = ''none''"
    by (simp add: analyzeStock_resume_def analyzeStock_finally_def)
  have call: "trim (stockInput_value p) \<noteq> [] \<longrightarrow>
        analyzeBtn_disabled (analyzeStock p)
        \<and> analyzeBtn_text_display (analyzeStock p) = ''none''
        \<and> analyzeBtn_loader_display (analyzeStock p) = ''inline-block''
        \<and> pending (analyzeStock p) = pending p @ [AwaitAnalyze (trim (stockInput_value p))]"
    by (simp add: analyzeStock_def Let_def fetch_def)
  have early: "trim (stockInput_value p) = [] \<longrightarrow>
        analyzeStock p = alert ''Please enter a stock name or symbol'' p"
    by (simp add: analyzeStock_def Let_def)
  have busy: "list_ex is_analyze (pending q)"
    if "\<not> analyzeBtn_disabled p0" and "run fl evs p0 = Some q" and "analyzeBtn_disabled q"
  proof -
    have "busy_inv p0"
      using that(1) by (simp add: busy_inv_def)
    with that(2) have "busy_inv q"
      by (rule run_invariant) (rule busy_inv_fire)
    with that(3) show ?thesis
      by (simp add: busy_inv_def)
  qed
  from fin call early busy show ?thesis
    by (intro conjI impI) simp_all
qed

text \<open>
  C9 as stated fails for the early return: the user starts an analysis and, before the
  answer is there, empties the input and presses Enter. The second run ends at once with
  its alert, and the button is still disabled, its loader shown.
\<close>

theorem analyzeStock_early_return_button_disabled:
  "\<not> analyzeBtn_disabled blank_page
   \<and> run exact overlap_events blank_page =
       Some (blank_page
         \<lparr>analyzeBtn_disabled := True,
          analyzeBtn_text_display := ''none'',
          analyzeBtn_loader_display := ''inline-block'',
          requests := [Get ''http://localhost:8000/api/analyze/TCS''],
          alerts := [''Please enter a stock name or symbol''],
          pending := [AwaitAnalyze ''TCS'']\<rparr>)"
  by (simp add: overlap_events_def blank_page_fields fire_def keypress_def analyzeStock_def
      alert_def fetch_def Let_def trim_def is_space_def API_BASE_def encodeURIComponent_def
      unreserved_def)

theorem analyzeStock_button_restored_witness:
  "\<not> analyzeBtn_disabled blank_page
   \<and> (\<exists>q. run exact overlap_events blank_page = Some q \<and> analyzeBtn_disabled q
          \<and> list_ex is_analyze (pending q))
   \<and> trim (stockInput_value blank_page) = []
   \<and> analyzeStock blank_page = alert ''Please enter a stock name or symbol'' blank_page
   \<and> trim (stockInput_value (blank_page\<lparr>stockInput_value := '' TCS''\<rparr>)) \<noteq> []
   \<and> analyzeBtn_disabled (analyzeStock (blank_page\<lparr>stockInput_value := '' TCS''\<rparr>))
   \<and> \<not> analyzeBtn_disabled (analyzeStock_resume ''TCS'' NetworkError
          (analyzeStock (blank_page\<lparr>stockInput_value := '' TCS''\<rparr>)))"
proof -
  have b: "\<not> analyzeBtn_disabled blank_page"
    by (simp add: blank_page_fields)
  have "\<exists>q. run exact overlap_events blank_page = Some q \<and> analyzeBtn_disabled q"
    by (simp add: overlap_events_def blank_page_fields fire_def keypress_def analyzeStock_def
      alert_def fetch_def Let_def trim_def is_space_def)
  then obtain q where r: "run exact overlap_events blank_page = Some q"
    and d: "analyzeBtn_disabled q"
    by (elim exE conjE)
  note inst = analyzeStock_button_restored [of "''TCS''" NetworkError _ blank_page exact overlap_events q]
  have l: "list_ex is_analyze (pending q)"
    using inst [of "analyzeStock (blank_page\<lparr>stockInput_value := '' TCS''\<rparr>)"] b r d by blast
  have e: "trim (stockInput_value blank_page) = []"
    by (simp add: blank_page_fields trim_def)
  have e': "analyzeStock blank_page = alert ''Please enter a stock name or symbol'' blank_page"
    using inst [of blank_page] e by blast
  have n: "trim (stockInput_value (blank_page\<lparr>stockInput_value := '' TCS''\<rparr>)) \<noteq> []"
    by (simp add: trim_def is_space_def)
  have n': "analyzeBtn_disabled (analyzeStock (blank_page\<lparr>stockInput_value := '' TCS''\<rparr>))"
    using inst [of "blank_page\<lparr>stockInput_value := '' TCS''\<rparr>"] n by blast
  have f: "\<not> analyzeBtn_disabled (analyzeStock_resume ''TCS'' NetworkError
          (analyzeStock (blank_page\<lparr>stockInput_value := '' TCS''\<rparr>)))"
    using inst [of "analyzeStock (blank_page\<lparr>stockInput_value := '' TCS''\<rparr>)"] by simp
  show ?thesis
    by (intro conjI exI [of _ q]) (fact b r d l e e' n n' f)+
qed

subsection \<open>A failing lookup\<close>






end
